theory Spec2Isabelle
  imports Complex_Main "HOL-Library.Sublist" "HOL-Library.Multiset"
    "HOL-Library.Product_Lexorder"
begin

section \<open>Data model of \<^verbatim>\<open>src/main.py\<close>\<close>

text \<open>
  Python strings are sequences of Unicode code points, and \<^verbatim>\<open>len\<close> counts code
  points, so a string is a list of code points (natural numbers). ASCII literals are
  written through \<open>asc\<close>. A \<^verbatim>\<open>datetime\<close> is the number of microseconds since a
  fixed epoch, a \<^verbatim>\<open>timedelta\<close> a number of microseconds, and the range limit of
  \<^verbatim>\<open>datetime\<close> is left out. Calls of the logger are left out.
\<close>

type_synonym pystr = "nat list"

definition asc :: "string \<Rightarrow> pystr" where
  "asc s = map of_char s"

text \<open>
  The exceptions the modelled code raises. \<open>HTTPException\<close> carries the status code and
  the detail text. \<open>ValueError\<close> is what \<^verbatim>\<open>np.dot\<close> raises on vectors of different
  length, \<open>TypeError\<close> what it raises on a missing (\<^verbatim>\<open>None\<close>) embedding.
\<close>

datatype py_error = HTTPException nat pystr | ValueError | TypeError

text \<open>
  A Python float (an IEEE double): a finite value, an infinity or \<^verbatim>\<open>nan\<close>. The two
  zeros are one value, \<open>Finite 0\<close>. Which reals are finite doubles, and how an
  operation rounds, overflows or produces \<^verbatim>\<open>nan\<close>, is not fixed here: the arithmetic
  of numpy is a parameter (\<open>float_ops\<close> below). The comparisons \<^verbatim>\<open><\<close> and
  \<^verbatim>\<open><=\<close> are those of IEEE: false whenever an operand is \<^verbatim>\<open>nan\<close>.
\<close>

datatype pyfloat = Finite real | PosInf | NegInf | NaN

fun fl_lt :: "pyfloat \<Rightarrow> pyfloat \<Rightarrow> bool" where
  "fl_lt NaN b = False"
| "fl_lt a NaN = False"
| "fl_lt (Finite x) (Finite y) = (x < y)"
| "fl_lt (Finite x) PosInf = True"
| "fl_lt (Finite x) NegInf = False"
| "fl_lt PosInf b = False"
| "fl_lt NegInf NegInf = False"
| "fl_lt NegInf b = True"


text \<open>
  The operations of numpy on doubles that \<^verbatim>\<open>cosine_similarity\<close> uses: the sum of
  products computed by \<^verbatim>\<open>np.dot\<close> on two arrays of one length, \<^verbatim>\<open>np.linalg.norm\<close>,
  the product and the quotient of two doubles. A division by zero raises nothing in
  numpy: it gives an infinity or \<^verbatim>\<open>nan\<close>.
\<close>

record float_ops =
  f_dot :: "pyfloat list \<Rightarrow> pyfloat list \<Rightarrow> pyfloat"
  f_norm :: "pyfloat list \<Rightarrow> pyfloat"
  f_mul :: "pyfloat \<Rightarrow> pyfloat \<Rightarrow> pyfloat"
  f_div :: "pyfloat \<Rightarrow> pyfloat \<Rightarrow> pyfloat"

text \<open>A chunk dictionary, with the seven keys every chunk of the program carries.\<close>

record chunk =
  chunk_id :: pystr
  chunk_text :: pystr
  embedding :: "pyfloat list option"
  source_document :: pystr
  source_link :: pystr
  chunk_index :: nat
  total_chunks :: nat

text \<open>
  A row of the table \<^verbatim>\<open>document_chunks\<close> (class \<^verbatim>\<open>DocumentChunk\<close>). The embedding
  column is not nullable, \<^verbatim>\<open>chunk_id\<close> is the primary key.
\<close>

record document_chunk =
  db_chunk_id :: pystr
  db_text :: pystr
  db_embedding :: "pyfloat list"
  db_source_document :: pystr
  db_source_link :: pystr
  db_chunk_index :: nat
  db_total_chunks :: nat
  db_folder_id :: pystr
  db_created_at :: int

text \<open>
  The global dictionary \<^verbatim>\<open>CACHE\<close>: either empty or holding the four keys
  \<^verbatim>\<open>timestamp\<close>, \<^verbatim>\<open>folder_id\<close>, \<^verbatim>\<open>files_data\<close>, \<^verbatim>\<open>total_files\<close>. A key that
  is absent is \<open>None\<close>; the empty dictionary has every key absent.
\<close>

record cache =
  timestamp :: "int option"
  folder_id :: "pystr option"
  files_data :: "chunk list option"
  total_files :: "nat option"

definition empty_cache :: cache where
  "empty_cache = \<lparr>timestamp = None, folder_id = None, files_data = None, total_files = None\<rparr>"

text \<open>
  The mutable state of the process: the volatile cache and the rows of the durable
  table. \<open>SessionLocal\<close> tells whether the database is configured. \<open>db_accepts\<close> is
  the verdict of the database on a transaction that inserts the given rows: it is
  false when a statement of the transaction raises for a reason other than a conflict
  of primary keys (a text holding the code point 0, a lost connection).
\<close>

record state =
  CACHE :: cache
  DB :: "document_chunk list"
  SessionLocal :: bool
  db_accepts :: "document_chunk list \<Rightarrow> bool"

definition CACHE_TTL_HOURS :: int where
  "CACHE_TTL_HOURS = 24 * 365 * 100"

definition timedelta_hours :: "int \<Rightarrow> int" where
  "timedelta_hours h = h * 3600000000"

section \<open>Cache store\<close>

text \<open>\<^verbatim>\<open>is_cache_valid(folder_id)\<close>; \<open>now\<close> is the value of \<^verbatim>\<open>datetime.now()\<close>.\<close>

definition is_cache_valid :: "cache \<Rightarrow> int \<Rightarrow> pystr \<Rightarrow> bool" where
  "is_cache_valid c now fid =
     (if c = empty_cache \<or> folder_id c \<noteq> Some fid then False
      else case timestamp c of
        None \<Rightarrow> False
      | Some cache_timestamp \<Rightarrow>
          (let cached_files = (case files_data c of None \<Rightarrow> [] | Some fs \<Rightarrow> fs) in
           if cached_files = [] \<or> length cached_files = 0 then False
           else (let expiration_time = cache_timestamp + timedelta_hours CACHE_TTL_HOURS
                 in now < expiration_time)))"

definition get_cached_files :: "cache \<Rightarrow> chunk list" where
  "get_cached_files c = (case files_data c of None \<Rightarrow> [] | Some fs \<Rightarrow> fs)"

text \<open>
  \<^verbatim>\<open>save_chunks_to_db\<close>: nothing happens without a database. Otherwise the rows of the
  folder are deleted, one row is added for every chunk that has an embedding (a chunk
  whose embedding is \<^verbatim>\<open>None\<close> is skipped by \<^verbatim>\<open>continue\<close>), and the transaction is
  committed. Any exception of the transaction is caught and everything is rolled
  back, the deletion included: that happens when two rows share the primary key or
  when the database does not accept the inserted rows. The table is a list in the
  order of insertion.
\<close>

definition to_row :: "int \<Rightarrow> pystr \<Rightarrow> chunk \<Rightarrow> pyfloat list \<Rightarrow> document_chunk" where
  "to_row now fid c e =
     \<lparr>db_chunk_id = chunk_id c, db_text = chunk_text c, db_embedding = e,
      db_source_document = source_document c, db_source_link = source_link c,
      db_chunk_index = chunk_index c, db_total_chunks = total_chunks c,
      db_folder_id = fid, db_created_at = now\<rparr>"

fun add_chunks :: "int \<Rightarrow> pystr \<Rightarrow> chunk list \<Rightarrow> document_chunk list \<Rightarrow> document_chunk list" where
  "add_chunks now fid [] rows = rows"
| "add_chunks now fid (chunk_data # chunks) rows =
     (case embedding chunk_data of
        None \<Rightarrow> add_chunks now fid chunks rows
      | Some e \<Rightarrow> add_chunks now fid chunks (rows @ [to_row now fid chunk_data e]))"

definition save_chunks_to_db :: "int \<Rightarrow> chunk list \<Rightarrow> pystr \<Rightarrow> state \<Rightarrow> state" where
  "save_chunks_to_db now chunks fid st =
     (if \<not> SessionLocal st then st
      else (let kept = filter (\<lambda>r. db_folder_id r \<noteq> fid) (DB st);
                rows = add_chunks now fid chunks kept
            in if distinct (map db_chunk_id rows) \<and> db_accepts st (add_chunks now fid chunks [])
               then st\<lparr>DB := rows\<rparr> else st))"

definition load_chunks_from_db :: "state \<Rightarrow> pystr \<Rightarrow> chunk list" where
  "load_chunks_from_db st fid =
     (if \<not> SessionLocal st then []
      else map (\<lambda>r. \<lparr>chunk_id = db_chunk_id r, chunk_text = db_text r,
                       embedding = Some (db_embedding r),
                       source_document = db_source_document r,
                       source_link = db_source_link r,
                       chunk_index = db_chunk_index r,
                       total_chunks = db_total_chunks r\<rparr>)
             (filter (\<lambda>r. db_folder_id r = fid) (DB st)))"

definition update_cache :: "int \<Rightarrow> pystr \<Rightarrow> chunk list \<Rightarrow> state \<Rightarrow> state" where
  "update_cache now fid fdata st =
     save_chunks_to_db now fdata fid
       (st\<lparr>CACHE := \<lparr>timestamp = Some now, folder_id = Some fid,
                      files_data = Some fdata, total_files = Some (length fdata)\<rparr>\<rparr>)"

definition invalidate_cache :: "state \<Rightarrow> state" where
  "invalidate_cache st = st\<lparr>CACHE := empty_cache\<rparr>"

section \<open>Segmenter\<close>

text \<open>
  \<^verbatim>\<open>str.isspace\<close> on one code point, \<^verbatim>\<open>str.strip()\<close>, \<^verbatim>\<open>str.split('\n')\<close> and the
  slice \<^verbatim>\<open>s[-n:]\<close> for a positive \<open>n\<close>.
\<close>

definition isspace :: "nat \<Rightarrow> bool" where
  "isspace c = ((9 \<le> c \<and> c \<le> 13) \<or> (28 \<le> c \<and> c \<le> 32) \<or> c = 133 \<or> c = 160
     \<or> c = 5760 \<or> (8192 \<le> c \<and> c \<le> 8202) \<or> c = 8232 \<or> c = 8233 \<or> c = 8239
     \<or> c = 8287 \<or> c = 12288)"

definition strip :: "pystr \<Rightarrow> pystr" where
  "strip s = rev (dropWhile isspace (rev (dropWhile isspace s)))"

fun split_on :: "nat \<Rightarrow> pystr \<Rightarrow> pystr list" where
  "split_on d [] = [[]]"
| "split_on d (c # cs) =
     (if c = d then [] # split_on d cs
      else (case split_on d cs of [] \<Rightarrow> [[c]] | w # ws \<Rightarrow> (c # w) # ws))"

definition last_chars :: "nat \<Rightarrow> pystr \<Rightarrow> pystr" where
  "last_chars n s = drop (length s - n) s"

text \<open>
  The loop of \<^verbatim>\<open>split_text_into_chunks\<close> over the paragraphs; the state is the pair
  of \<^verbatim>\<open>chunks\<close> and \<^verbatim>\<open>current_chunk\<close>.
\<close>

fun chunk_loop :: "int \<Rightarrow> int \<Rightarrow> pystr list \<Rightarrow> pystr list \<times> pystr \<Rightarrow> pystr list \<times> pystr" where
  "chunk_loop chunk_size overlap [] st = st"
| "chunk_loop chunk_size overlap (paragraph # ps) (chunks, current_chunk) =
     (if int (length current_chunk) + int (length paragraph) > chunk_size \<and> current_chunk \<noteq> []
      then chunk_loop chunk_size overlap ps
             (chunks @ [strip current_chunk],
              (if overlap > 0 then last_chars (nat overlap) current_chunk @ asc '' '' else [])
                @ paragraph @ asc '' '')
      else chunk_loop chunk_size overlap ps (chunks, current_chunk @ paragraph @ asc '' ''))"

definition paragraphs_of :: "pystr \<Rightarrow> pystr list" where
  "paragraphs_of txt = map strip (filter (\<lambda>p. strip p \<noteq> []) (split_on 10 txt))"

definition split_text_into_chunks :: "pystr \<Rightarrow> int \<Rightarrow> int \<Rightarrow> pystr list" where
  "split_text_into_chunks txt chunk_size overlap =
     (if txt = [] \<or> length (strip txt) = 0 then []
      else (case chunk_loop chunk_size overlap (paragraphs_of txt) ([], []) of
              (chunks, current_chunk) \<Rightarrow>
                if strip current_chunk \<noteq> [] then chunks @ [strip current_chunk] else chunks))"

section \<open>External collaborators and configuration\<close>

text \<open>
  A file of the Drive listing, with the fields the program reads: \<^verbatim>\<open>id\<close>,
  \<^verbatim>\<open>name\<close>, \<^verbatim>\<open>mimeType\<close> and the optional \<^verbatim>\<open>webViewLink\<close>.
\<close>

record drive_file =
  file_id :: pystr
  file_name :: pystr
  mime_type :: pystr
  web_view_link :: "pystr option"

text \<open>An entry of the result list of \<^verbatim>\<open>semantic_search\<close>: the chunk and its score.\<close>

record scored =
  item :: chunk
  similarity :: pyfloat

text \<open>
  The environment: the configuration read at start-up, the external services and the
  libraries. A service that raises returns \<open>Inl\<close> with the text of the exception.
  \<open>drive_error\<close> is the failure of the connection to Drive, if any. \<open>exc_str\<close> is
  \<^verbatim>\<open>str(e)\<close> on the exceptions of the model. The text extractors catch their own
  exceptions and always return a string. \<open>np\<close> is the arithmetic of numpy, and
  \<open>unordered_sort\<close> is what \<^verbatim>\<open>list.sort\<close> does to a list whose keys are not totally
  ordered (see \<open>list_sort_reverse\<close>).
\<close>

record env =
  FOLDER_ID :: "pystr option"
  openai_client :: "(pystr \<Rightarrow> pystr + pyfloat list) option"
  np :: float_ops
  unordered_sort :: "scored list \<Rightarrow> scored list"
  drive_error :: "pystr option"
  files_list :: "pystr \<Rightarrow> pystr + drive_file list"
  get_media :: "pystr \<Rightarrow> pystr + nat list"
  export_media :: "pystr \<Rightarrow> pystr \<Rightarrow> pystr + nat list"
  extract_text_from_pdf :: "nat list \<Rightarrow> pystr"
  extract_text_from_docx :: "nat list \<Rightarrow> pystr"
  exc_str :: "py_error \<Rightarrow> pystr"

text \<open>\<^verbatim>\<open>str(n)\<close> for a natural number: its decimal digits.\<close>

fun str_nat :: "nat \<Rightarrow> pystr" where
  "str_nat n = (if n < 10 then [48 + n] else str_nat (n div 10) @ [48 + n mod 10])"

declare str_nat.simps [simp del]

definition get_drive_service :: "env \<Rightarrow> py_error + unit" where
  "get_drive_service env =
     (case drive_error env of
        Some m \<Rightarrow> Inl (HTTPException 500 (asc ''Error al conectar con Google Drive: '' @ m))
      | None \<Rightarrow> Inr ())"

definition list_files_in_folder :: "env \<Rightarrow> pystr \<Rightarrow> py_error + drive_file list" where
  "list_files_in_folder env fid =
     (case files_list env (asc [CHR 0x27] @ fid @ asc [CHR 0x27] @ asc '' in parents and trashed=false'') of
        Inl m \<Rightarrow> Inl (HTTPException 500 (asc ''Error al listar archivos: '' @ m))
      | Inr files \<Rightarrow> Inr files)"

definition download_file :: "env \<Rightarrow> pystr \<Rightarrow> pystr + nat list" where
  "download_file env fid = get_media env fid"

section \<open>Embedding provider and similarity ranker\<close>

definition generate_embedding :: "env \<Rightarrow> pystr \<Rightarrow> py_error + pyfloat list" where
  "generate_embedding env txt =
     (case openai_client env of
        None \<Rightarrow> Inl (HTTPException 500
                 (asc ''OpenAI API no configurado. Agrega OPENAI_API_KEY en variables de entorno.''))
      | Some create \<Rightarrow>
          (let max_chars = 30000;
               txt' = (if length txt > max_chars then take max_chars txt else txt)
           in case create txt' of
                Inl m \<Rightarrow> Inl (HTTPException 500 (asc ''Error al generar embedding: '' @ m))
              | Inr e \<Rightarrow> Inr e))"

text \<open>
  \<^verbatim>\<open>np.dot\<close> on two one-dimensional arrays raises \<^verbatim>\<open>ValueError\<close> when their lengths
  differ, before any arithmetic. The elements are doubles, as the annotation
  \<^verbatim>\<open>List[float]\<close> says.
\<close>

definition np_dot :: "float_ops \<Rightarrow> pyfloat list \<Rightarrow> pyfloat list \<Rightarrow> py_error + pyfloat" where
  "np_dot fo v w = (if length v \<noteq> length w then Inl ValueError else Inr (f_dot fo v w))"

text \<open>
  \<^verbatim>\<open>cosine_similarity\<close>: the dot product is computed first, then the two norms; the
  test \<^verbatim>\<open>norm1 == 0 or norm2 == 0\<close> is true of a norm that is a zero.
\<close>

definition cosine_similarity :: "float_ops \<Rightarrow> pyfloat list \<Rightarrow> pyfloat list \<Rightarrow> py_error + pyfloat" where
  "cosine_similarity fo vec1 vec2 =
     (case np_dot fo vec1 vec2 of
        Inl e \<Rightarrow> Inl e
      | Inr dot_product \<Rightarrow>
          (let norm1 = f_norm fo vec1; norm2 = f_norm fo vec2
           in if norm1 = Finite 0 \<or> norm2 = Finite 0 then Inr (Finite 0)
              else Inr (f_div fo dot_product (f_mul fo norm1 norm2))))"

fun score_chunks :: "float_ops \<Rightarrow> pyfloat list \<Rightarrow> chunk list \<Rightarrow> scored list \<Rightarrow> py_error + scored list" where
  "score_chunks fo query_embedding [] results = Inr results"
| "score_chunks fo query_embedding (c # cs) results =
     (case embedding c of
        None \<Rightarrow> Inl TypeError
      | Some e \<Rightarrow>
          (case cosine_similarity fo query_embedding e of
             Inl err \<Rightarrow> Inl err
           | Inr s \<Rightarrow>
               score_chunks fo query_embedding cs (results @ [\<lparr>item = c, similarity = s\<rparr>])))"

text \<open>The slice \<^verbatim>\<open>xs[:k]\<close>; a negative \<open>k\<close> counts from the end.\<close>

definition slice_to :: "'a list \<Rightarrow> int \<Rightarrow> 'a list" where
  "slice_to xs k = (if 0 \<le> k then take (nat k) xs else take (length xs - nat (- k)) xs)"

text \<open>
  \<^verbatim>\<open>results.sort(key=lambda x: x['similarity'], reverse=True)\<close>. Python reverses the
  list, sorts it in ascending order of the keys with a stable sort that compares with
  \<^verbatim>\<open><\<close> only, and reverses it again.
  \<^item> When no key is \<^verbatim>\<open>nan\<close> the keys are totally ordered and the result is the stable
    sort in descending order: the stable ascending sort by \<open>desc_rank\<close>, which
    reverses the order of the doubles.
  \<^item> When a key is \<^verbatim>\<open>nan\<close> and no element is smaller than its successor, the
    reversed list is one ascending run for the sort, which leaves it as it is.
  \<^item> Otherwise the result is a permutation of the list that depends on the
    implementation of the sort: the parameter \<open>unordered_sort\<close>. The sort always
    leaves a permutation of the list, so a value of the parameter that is no
    permutation is not used.
\<close>

fun desc_rank :: "pyfloat \<Rightarrow> int \<times> real" where
  "desc_rank PosInf = (0, 0)"
| "desc_rank (Finite x) = (1, - x)"
| "desc_rank NegInf = (2, 0)"
| "desc_rank NaN = (3, 0)"

fun no_ascent :: "pyfloat list \<Rightarrow> bool" where
  "no_ascent (a # b # rest) = (\<not> fl_lt a b \<and> no_ascent (b # rest))"
| "no_ascent [a] = True"
| "no_ascent [] = True"

definition list_sort_reverse :: "env \<Rightarrow> scored list \<Rightarrow> scored list" where
  "list_sort_reverse env results =
     (if NaN \<notin> set (map similarity results)
      then sort_key (\<lambda>x. desc_rank (similarity x)) results
      else if no_ascent (map similarity results) then results
      else if mset (unordered_sort env results) = mset results
      then unordered_sort env results else results)"

definition semantic_search :: "env \<Rightarrow> pystr \<Rightarrow> chunk list \<Rightarrow> int \<Rightarrow> py_error + scored list" where
  "semantic_search env query chunks_data top_k =
     (case generate_embedding env query of
        Inl e \<Rightarrow> Inl e
      | Inr query_embedding \<Rightarrow>
          (case score_chunks (np env) query_embedding chunks_data [] of
             Inl e \<Rightarrow> Inl e
           | Inr results \<Rightarrow> Inr (slice_to (list_sort_reverse env results) top_k)))"

section \<open>Ingestion orchestrator\<close>

text \<open>
  The two lists a run of \<^verbatim>\<open>warmup_cache\<close> builds: \<^verbatim>\<open>all_files_data\<close> and
  \<^verbatim>\<open>embedding_errors\<close>.
\<close>

record ingest =
  all_files_data :: "chunk list"
  embedding_errors :: "pystr list"

text \<open>
  The part of the \<^verbatim>\<open>try\<close> block of one file that produces \<^verbatim>\<open>content\<close>. \<open>Inl\<close> is
  the text of an exception raised by the download or the export.
\<close>

definition docx_mime :: pystr where
  "docx_mime = asc ''application/vnd.openxmlformats-officedocument.wordprocessingml.document''"

definition extract_content :: "env \<Rightarrow> drive_file \<Rightarrow> pystr + pystr" where
  "extract_content env f =
     (if mime_type f = asc ''application/pdf'' then
        (case download_file env (file_id f) of
           Inl m \<Rightarrow> Inl m | Inr file_content \<Rightarrow> Inr (extract_text_from_pdf env file_content))
      else if mime_type f = docx_mime then
        (case download_file env (file_id f) of
           Inl m \<Rightarrow> Inl m | Inr file_content \<Rightarrow> Inr (extract_text_from_docx env file_content))
      else if mime_type f = asc ''application/vnd.google-apps.document'' then
        (case export_media env (file_id f) docx_mime of
           Inl m \<Rightarrow> Inl m | Inr buffer_content \<Rightarrow> Inr (extract_text_from_docx env buffer_content))
      else Inr (asc ''[Tipo de archivo no soportado: '' @ mime_type f @ asc '']''))"

text \<open>
  The loop \<^verbatim>\<open>for i, chunk_text in enumerate(chunks)\<close>: a chunk whose embedding is
  generated is appended to \<^verbatim>\<open>all_files_data\<close>; when the generation raises, only the
  error text is appended to \<^verbatim>\<open>embedding_errors\<close>.
\<close>

definition new_chunk :: "drive_file \<Rightarrow> pystr \<Rightarrow> nat \<Rightarrow> nat \<Rightarrow> pystr \<Rightarrow> pyfloat list \<Rightarrow> chunk" where
  "new_chunk f web_link n i txt e =
     \<lparr>chunk_id = file_id f @ asc ''_'' @ str_nat i, chunk_text = txt, embedding = Some e,
      source_document = file_name f, source_link = web_link, chunk_index = i,
      total_chunks = n\<rparr>"

definition error_msg :: "env \<Rightarrow> drive_file \<Rightarrow> nat \<Rightarrow> py_error \<Rightarrow> pystr" where
  "error_msg env f i embed_error =
     file_name f @ asc '' chunk '' @ str_nat i @ asc '': '' @ exc_str env embed_error"

fun embed_chunks :: "env \<Rightarrow> drive_file \<Rightarrow> pystr \<Rightarrow> nat \<Rightarrow> (nat \<times> pystr) list \<Rightarrow> ingest \<Rightarrow> ingest" where
  "embed_chunks env f web_link n [] run = run"
| "embed_chunks env f web_link n ((i, txt) # rest) run =
     embed_chunks env f web_link n rest
       (case generate_embedding env txt of
          Inr e \<Rightarrow> run\<lparr>all_files_data := all_files_data run @ [new_chunk f web_link n i txt e]\<rparr>
        | Inl embed_error \<Rightarrow>
            run\<lparr>embedding_errors := embedding_errors run @ [error_msg env f i embed_error]\<rparr>)"

definition error_chunk :: "drive_file \<Rightarrow> pystr \<Rightarrow> pystr \<Rightarrow> chunk" where
  "error_chunk f web_link m =
     \<lparr>chunk_id = file_id f @ asc ''_error'',
      chunk_text = asc ''[Error al procesar archivo: '' @ m @ asc '']'',
      embedding = None, source_document = file_name f, source_link = web_link,
      chunk_index = 0, total_chunks = 1\<rparr>"

definition process_file :: "env \<Rightarrow> drive_file \<Rightarrow> ingest \<Rightarrow> ingest" where
  "process_file env f run =
     (let web_link = (case web_view_link f of None \<Rightarrow> asc ''No disponible'' | Some l \<Rightarrow> l)
      in case extract_content env f of
           Inr content \<Rightarrow>
             (let chunks = split_text_into_chunks content 3000 300
              in embed_chunks env f web_link (length chunks) (enumerate 0 chunks) run)
         | Inl m \<Rightarrow> run\<lparr>all_files_data := all_files_data run @ [error_chunk f web_link m]\<rparr>)"

fun process_files :: "env \<Rightarrow> drive_file list \<Rightarrow> ingest \<Rightarrow> ingest" where
  "process_files env [] run = run"
| "process_files env (f # files) run = process_files env files (process_file env f run)"

text \<open>
  The dictionary \<^verbatim>\<open>warmup_cache\<close> returns. Its three shapes do not have the same
  keys; an absent key is \<open>None\<close>.
\<close>

record warmup_result =
  w_success :: bool
  w_message :: pystr
  w_total_chunks :: "nat option"
  w_total_documents :: "nat option"
  w_total_files :: "nat option"
  w_cache_status :: pystr
  w_cache_ttl_hours :: "int option"
  w_embedding_errors :: "pystr list option"
  w_total_errors :: "nat option"

definition unique_docs :: "chunk list \<Rightarrow> nat" where
  "unique_docs cs = card (set (map source_document cs))"

definition warm_result :: "chunk list \<Rightarrow> warmup_result" where
  "warm_result cached_chunks =
     \<lparr>w_success = True,
      w_message = asc ''Cach'' @ [233] @ asc '' ya est'' @ [225] @ asc '' precargado y v''
                    @ [225] @ asc ''lido'',
      w_total_chunks = Some (length cached_chunks),
      w_total_documents = Some (unique_docs cached_chunks),
      w_total_files = None, w_cache_status = asc ''warm'', w_cache_ttl_hours = None,
      w_embedding_errors = None, w_total_errors = None\<rparr>"

definition empty_result :: warmup_result where
  "empty_result =
     \<lparr>w_success = False, w_message = asc ''No hay archivos en la carpeta para precargar'',
      w_total_chunks = None, w_total_documents = None, w_total_files = Some 0,
      w_cache_status = asc ''empty'', w_cache_ttl_hours = None,
      w_embedding_errors = None, w_total_errors = None\<rparr>"

definition run_result :: "ingest \<Rightarrow> warmup_result" where
  "run_result run =
     \<lparr>w_success = (if length (all_files_data run) > 0 then True else False),
      w_message = (if length (all_files_data run) > 0
                   then asc ''Cach'' @ [233] @ asc '' precargado exitosamente con embeddings''
                   else asc ''Error: No se generaron embeddings''),
      w_total_chunks = Some (length (all_files_data run)),
      w_total_documents = Some (unique_docs (all_files_data run)),
      w_total_files = None, w_cache_status = asc ''warm'',
      w_cache_ttl_hours = Some CACHE_TTL_HOURS,
      w_embedding_errors =
        (if embedding_errors run \<noteq> [] then Some (take 5 (embedding_errors run)) else None),
      w_total_errors =
        (if embedding_errors run \<noteq> [] then Some (length (embedding_errors run)) else None)\<rparr>"

text \<open>
  \<^verbatim>\<open>warmup_cache\<close>. \<open>t_check\<close> is the clock when the validity of the cache is
  tested, \<open>t_update\<close> the clock when the cache is replaced. A raised
  \<^verbatim>\<open>HTTPException\<close> is re-raised as it is.
\<close>

definition warmup_cache :: "env \<Rightarrow> int \<Rightarrow> int \<Rightarrow> state \<Rightarrow> (py_error + warmup_result) \<times> state" where
  "warmup_cache env t_check t_update st =
     (case FOLDER_ID env of
        None \<Rightarrow> (Inl (HTTPException 500 (asc ''FOLDER_ID no configurado. Verifica el archivo .env'')), st)
      | Some fid \<Rightarrow>
          if fid = [] then
            (Inl (HTTPException 500 (asc ''FOLDER_ID no configurado. Verifica el archivo .env'')), st)
          else if openai_client env = None then
            (Inl (HTTPException 500
               (asc ''OpenAI API no configurado. Verifica que OPENAI_API_KEY est'' @ [233]
                  @ asc '' en las variables de entorno.'')), st)
          else if is_cache_valid (CACHE st) t_check fid then
            (Inr (warm_result (get_cached_files (CACHE st))), st)
          else
            (case get_drive_service env of
               Inl e \<Rightarrow> (Inl e, st)
             | Inr service \<Rightarrow>
                 (case list_files_in_folder env fid of
                    Inl e \<Rightarrow> (Inl e, st)
                  | Inr files \<Rightarrow>
                      if files = [] then (Inr empty_result, st)
                      else (let run = process_files env files
                                        \<lparr>all_files_data = [], embedding_errors = []\<rparr>
                            in (Inr (run_result run),
                                update_cache t_update fid (all_files_data run) st)))))"

record refresh_result =
  r_success :: bool
  r_message :: pystr
  r_total_chunks :: nat
  r_total_documents :: nat
  r_cache_status :: pystr
  r_cache_ttl_days :: real

text \<open>
  \<^verbatim>\<open>refresh_cache\<close>: the cache is invalidated, \<^verbatim>\<open>warmup_cache\<close> is awaited, and any
  exception is turned into an \<^verbatim>\<open>HTTPException\<close> with status 500.
\<close>

definition refresh_cache :: "env \<Rightarrow> int \<Rightarrow> int \<Rightarrow> state \<Rightarrow> (py_error + refresh_result) \<times> state" where
  "refresh_cache env t_check t_update st =
     (case warmup_cache env t_check t_update (invalidate_cache st) of
        (Inl e, st') \<Rightarrow>
          (Inl (HTTPException 500
             (asc ''Error al actualizar cach'' @ [233] @ asc '': '' @ exc_str env e)), st')
      | (Inr result, st') \<Rightarrow>
          (Inr \<lparr>r_success = True,
                r_message = asc ''Cach'' @ [233]
                  @ asc '' actualizado exitosamente con embeddings generados'',
                r_total_chunks = (case w_total_chunks result of None \<Rightarrow> 0 | Some n \<Rightarrow> n),
                r_total_documents = (case w_total_documents result of None \<Rightarrow> 0 | Some n \<Rightarrow> n),
                r_cache_status = asc ''refreshed'',
                r_cache_ttl_days = real_of_int CACHE_TTL_HOURS / 24\<rparr>, st'))"

section \<open>Query path\<close>

text \<open>
  The section of \<^verbatim>\<open>buscar_normativa\<close> that computes \<^verbatim>\<open>top_chunks\<close> from
  \<^verbatim>\<open>all_files_data\<close> and the search term (\<^verbatim>\<open>MAX_CHUNKS_IN_RESPONSE\<close> to the
  assignment of \<^verbatim>\<open>top_chunks\<close>). Two branches return early: no chunk has an
  embedding, or the ranking is empty. An exception of the ranking leaves the section
  as it was raised; the handlers of the endpoint are outside the section.
\<close>

datatype top_chunks = NoEmbeddings | NoResults | Ranked "scored list" | FirstChunks "chunk list"

definition MAX_CHUNKS_IN_RESPONSE :: int where
  "MAX_CHUNKS_IN_RESPONSE = 10"

definition buscar_normativa_top_chunks :: "env \<Rightarrow> pystr option \<Rightarrow> chunk list \<Rightarrow> py_error + top_chunks" where
  "buscar_normativa_top_chunks env termino data =
     (case termino of
        None \<Rightarrow> Inr (FirstChunks (slice_to data MAX_CHUNKS_IN_RESPONSE))
      | Some t \<Rightarrow>
          if t = [] then Inr (FirstChunks (slice_to data MAX_CHUNKS_IN_RESPONSE))
          else (let chunks_with_embeddings = filter (\<lambda>c. embedding c \<noteq> None) data
                in if chunks_with_embeddings = [] then Inr NoEmbeddings
                   else (case semantic_search env t chunks_with_embeddings
                                MAX_CHUNKS_IN_RESPONSE of
                           Inl e \<Rightarrow> Inl e
                         | Inr ranked \<Rightarrow>
                             if ranked = [] then Inr NoResults else Inr (Ranked ranked))))"

section \<open>Concrete inputs\<close>

text \<open>
  Small inputs on which the definitions are evaluated.

  \<open>ex_np\<close> is an arithmetic of doubles without rounding and without the sign of zero:
  a sum, product or quotient is the exact one, a result beyond the largest double is
  an infinity, and infinities and \<^verbatim>\<open>nan\<close> combine as in IEEE. The dot product adds the
  products from left to right, and the norm is the square root of the dot product of
  the vector with itself, as \<^verbatim>\<open>np.linalg.norm\<close> computes it. It agrees with the doubles
  on the inputs below, where every intermediate result is \<open>0\<close>, \<open>1\<close>, a power of two
  or an infinity.
\<close>

definition MAX_DOUBLE :: real where
  "MAX_DOUBLE = 2 ^ 1024 - 2 ^ 971"

definition overflow :: "real \<Rightarrow> pyfloat" where
  "overflow x = (if MAX_DOUBLE < x then PosInf else if x < - MAX_DOUBLE then NegInf
                 else Finite x)"

fun ex_add :: "pyfloat \<Rightarrow> pyfloat \<Rightarrow> pyfloat" where
  "ex_add NaN b = NaN"
| "ex_add a NaN = NaN"
| "ex_add (Finite x) (Finite y) = overflow (x + y)"
| "ex_add (Finite x) b = b"
| "ex_add a (Finite y) = a"
| "ex_add PosInf PosInf = PosInf"
| "ex_add NegInf NegInf = NegInf"
| "ex_add PosInf NegInf = NaN"
| "ex_add NegInf PosInf = NaN"

fun ex_mul :: "pyfloat \<Rightarrow> pyfloat \<Rightarrow> pyfloat" where
  "ex_mul NaN b = NaN"
| "ex_mul a NaN = NaN"
| "ex_mul (Finite x) (Finite y) = overflow (x * y)"
| "ex_mul (Finite x) PosInf = (if x = 0 then NaN else if 0 < x then PosInf else NegInf)"
| "ex_mul (Finite x) NegInf = (if x = 0 then NaN else if 0 < x then NegInf else PosInf)"
| "ex_mul PosInf (Finite y) = (if y = 0 then NaN else if 0 < y then PosInf else NegInf)"
| "ex_mul NegInf (Finite y) = (if y = 0 then NaN else if 0 < y then NegInf else PosInf)"
| "ex_mul PosInf PosInf = PosInf"
| "ex_mul NegInf NegInf = PosInf"
| "ex_mul PosInf NegInf = NegInf"
| "ex_mul NegInf PosInf = NegInf"

fun ex_div :: "pyfloat \<Rightarrow> pyfloat \<Rightarrow> pyfloat" where
  "ex_div NaN b = NaN"
| "ex_div a NaN = NaN"
| "ex_div (Finite x) (Finite y) =
     (if y = 0 then (if x = 0 then NaN else if 0 < x then PosInf else NegInf)
      else overflow (x / y))"
| "ex_div (Finite x) b = Finite 0"
| "ex_div PosInf (Finite y) = (if 0 \<le> y then PosInf else NegInf)"
| "ex_div NegInf (Finite y) = (if 0 \<le> y then NegInf else PosInf)"
| "ex_div a b = NaN"

fun ex_sqrt :: "pyfloat \<Rightarrow> pyfloat" where
  "ex_sqrt (Finite x) = (if x < 0 then NaN else Finite (sqrt x))"
| "ex_sqrt PosInf = PosInf"
| "ex_sqrt NegInf = NaN"
| "ex_sqrt NaN = NaN"

definition ex_dot :: "pyfloat list \<Rightarrow> pyfloat list \<Rightarrow> pyfloat" where
  "ex_dot v w = foldl ex_add (Finite 0) (map (\<lambda>(x, y). ex_mul x y) (zip v w))"

definition ex_norm :: "pyfloat list \<Rightarrow> pyfloat" where
  "ex_norm v = ex_sqrt (ex_dot v v)"

definition ex_np :: float_ops where
  "ex_np = \<lparr>f_dot = ex_dot, f_norm = ex_norm, f_mul = ex_mul, f_div = ex_div\<rparr>"

text \<open>
  Chunks, a state with an empty table whose database rejects a text holding the code
  point \<open>0\<close>, a text of two paragraphs, two Drive files, and four environments. In
  \<open>env_mixed\<close> the folder holds a PDF whose text \<^verbatim>\<open>hola\<close> is embedded as \<open>[1, 0]\<close> and
  a PDF whose text \<^verbatim>\<open>adios\<close> makes the provider fail; in \<open>env_fail\<close> only the second
  file is listed; in \<open>env_nofiles\<close> the folder is empty; in \<open>env_big\<close> every text is
  embedded as \<open>[2^500, 0]\<close>.
\<close>

definition ex_big :: real where
  "ex_big = 2 ^ 500"

definition ex_huge :: real where
  "ex_huge = 2 ^ 600"

definition ex_chunk :: chunk where
  "ex_chunk = \<lparr>chunk_id = asc ''f1_0'', chunk_text = asc ''hola'', embedding = Some [Finite 1, Finite 0],
     source_document = asc ''a.pdf'', source_link = asc ''No disponible'',
     chunk_index = 0, total_chunks = 1\<rparr>"

definition ex_null :: chunk where
  "ex_null = \<lparr>chunk_id = asc ''f3_error'', chunk_text = asc ''[Error al procesar archivo: x]'',
     embedding = None, source_document = asc ''c.pdf'', source_link = asc ''No disponible'',
     chunk_index = 0, total_chunks = 1\<rparr>"




definition ex_nul :: chunk where
  "ex_nul = \<lparr>chunk_id = asc ''f7_0'', chunk_text = [97, 0, 98],
     embedding = Some [Finite 0, Finite 1],
     source_document = asc ''g.pdf'', source_link = asc ''No disponible'',
     chunk_index = 0, total_chunks = 1\<rparr>"

definition st0 :: state where
  "st0 = \<lparr>CACHE = empty_cache, DB = [], SessionLocal = True,
     db_accepts = (\<lambda>rows. list_all (\<lambda>r. 0 \<notin> set (db_text r)) rows)\<rparr>"

definition ex_text :: pystr where
  "ex_text = asc ''aaaaa'' @ [10] @ asc ''bbbbb''"

definition ex_file1 :: drive_file where
  "ex_file1 = \<lparr>file_id = asc ''f1'', file_name = asc ''a.pdf'',
     mime_type = asc ''application/pdf'', web_view_link = None\<rparr>"

definition ex_file2 :: drive_file where
  "ex_file2 = \<lparr>file_id = asc ''f2'', file_name = asc ''b.pdf'',
     mime_type = asc ''application/pdf'', web_view_link = None\<rparr>"

definition env_mixed :: env where
  "env_mixed = \<lparr>FOLDER_ID = Some (asc ''F''),
     openai_client = Some (\<lambda>t. if t = asc ''hola'' then Inr [Finite 1, Finite 0]
                                 else Inl (asc ''boom'')),
     np = ex_np,
     unordered_sort = (\<lambda>results. results),
     drive_error = None,
     files_list = (\<lambda>q. Inr [ex_file1, ex_file2]),
     get_media = (\<lambda>i. if i = asc ''f1'' then Inr (asc ''hola'') else Inr (asc ''adios'')),
     export_media = (\<lambda>i m. Inr []),
     extract_text_from_pdf = (\<lambda>b. b),
     extract_text_from_docx = (\<lambda>b. b),
     exc_str = (\<lambda>e. case e of HTTPException s d \<Rightarrow> d | _ \<Rightarrow> [])\<rparr>"

definition env_fail :: env where
  "env_fail = env_mixed\<lparr>files_list := (\<lambda>q. Inr [ex_file2])\<rparr>"

definition env_nofiles :: env where
  "env_nofiles = env_mixed\<lparr>files_list := (\<lambda>q. Inr [])\<rparr>"


definition ex_run0 :: ingest where
  "ex_run0 = \<lparr>all_files_data = [], embedding_errors = []\<rparr>"

definition ex_error :: py_error where
  "ex_error = HTTPException 500 (asc ''Error al generar embedding: boom'')"

section \<open>Auxiliary facts\<close>

subsection \<open>Cache store\<close>

lemma invalid_empty_cache: "\<not> is_cache_valid empty_cache now fid"
  by (simp add: is_cache_valid_def)

lemma files_data_empty_cache: "files_data empty_cache = None"
  by (simp add: empty_cache_def)

lemma CACHE_save_chunks_to_db: "CACHE (save_chunks_to_db now cs fid st) = CACHE st"
  by (simp add: save_chunks_to_db_def Let_def)

lemma CACHE_update_cache:
  "CACHE (update_cache now fid fdata st) =
     \<lparr>timestamp = Some now, folder_id = Some fid, files_data = Some fdata,
      total_files = Some (length fdata)\<rparr>"
  by (simp add: update_cache_def CACHE_save_chunks_to_db)

lemma add_chunks_eq:
  "add_chunks now fid cs rows =
     rows @ List.map_filter (\<lambda>c. map_option (to_row now fid c) (embedding c)) cs"
  by (induction cs arbitrary: rows) (simp_all add: map_filter_simps split: option.splits)

lemma DB_update_cache:
  "DB (update_cache now fid cs st) =
     (let rows = filter (\<lambda>r. db_folder_id r \<noteq> fid) (DB st)
                   @ List.map_filter (\<lambda>c. map_option (to_row now fid c) (embedding c)) cs
      in if SessionLocal st \<and> distinct (map db_chunk_id rows)
            \<and> db_accepts st (List.map_filter
                  (\<lambda>c. map_option (to_row now fid c) (embedding c)) cs)
         then rows else DB st)"
  by (simp add: update_cache_def save_chunks_to_db_def Let_def add_chunks_eq)

subsection \<open>Similarity ranker\<close>

lemma score_chunks_Inr:
  "score_chunks fo qe cs acc = Inr rs \<Longrightarrow>
     \<exists>new. rs = acc @ new \<and> map item new = cs
       \<and> (\<forall>r\<in>set new. cosine_similarity fo qe (the (embedding (item r))) = Inr (similarity r))"
proof (induction cs arbitrary: acc)
  case Nil
  then show ?case by simp
next
  case (Cons c cs)
  from Cons.prems obtain e s where e: "embedding c = Some e"
    and s: "cosine_similarity fo qe e = Inr s"
    and rest: "score_chunks fo qe cs (acc @ [\<lparr>item = c, similarity = s\<rparr>]) = Inr rs"
    by (auto split: option.splits sum.splits)
  from Cons.IH [OF rest] obtain new where new: "rs = (acc @ [\<lparr>item = c, similarity = s\<rparr>]) @ new"
    "map item new = cs"
    "\<forall>r\<in>set new. cosine_similarity fo qe (the (embedding (item r))) = Inr (similarity r)"
    by blast
  show ?case
  proof (intro exI conjI)
    show "rs = acc @ (\<lparr>item = c, similarity = s\<rparr> # new)" using new(1) by simp
    show "map item (\<lparr>item = c, similarity = s\<rparr> # new) = c # cs" using new(2) by simp
    show "\<forall>r\<in>set (\<lparr>item = c, similarity = s\<rparr> # new).
            cosine_similarity fo qe (the (embedding (item r))) = Inr (similarity r)"
      using new(3) e s by simp
  qed
qed







lemma set_list_sort_reverse: "set (list_sort_reverse env rs) = set rs"
  by (auto simp add: list_sort_reverse_def dest: mset_eq_setD)



lemma set_slice_to: "set (slice_to xs k) \<subseteq> set xs"
  by (auto simp add: slice_to_def dest: in_set_takeD)

lemma semantic_search_items:
  assumes "semantic_search env q cs k = Inr out"
  shows "item ` set out \<subseteq> set cs"
proof -
  from assms obtain qe rs where rs: "score_chunks (np env) qe cs [] = Inr rs"
    and o: "out = slice_to (list_sort_reverse env rs) k"
    by (auto simp add: semantic_search_def split: sum.splits)
  from score_chunks_Inr [OF rs] have "map item rs = cs" by auto
  then have "item ` set rs = set cs" by (metis set_map)
  moreover have "set out \<subseteq> set rs"
    unfolding o using set_slice_to [of "list_sort_reverse env rs" k]
    by (simp add: set_list_sort_reverse)
  ultimately show ?thesis by blast
qed

subsection \<open>Segmenter\<close>

lemma asc_space: "asc '' '' = [32]"
  by (simp add: asc_def)

lemma isspace_32: "isspace 32"
  by (simp add: isspace_def)

lemma strip_snoc_space:
  assumes "isspace a"
  shows "strip (x @ [a]) = strip x"
proof (cases "\<forall>c\<in>set x. isspace c")
  case True
  then have 1: "dropWhile isspace (x @ [a]) = dropWhile isspace [a]"
    by (simp add: dropWhile_append2)
  from True have 2: "dropWhile isspace x = []" by simp
  show ?thesis unfolding strip_def 1 2 using assms by simp
next
  case False
  then obtain c where "c \<in> set x" "\<not> isspace c" by blast
  then have 1: "dropWhile isspace (x @ [a]) = dropWhile isspace x @ [a]"
    by (rule dropWhile_append1)
  show ?thesis unfolding strip_def 1 using assms by simp
qed

lemma strip_append_stripped:
  assumes "p \<noteq> []" "\<not> isspace (hd p)" "\<not> isspace (last p)"
  shows "strip (x @ p) = dropWhile isspace x @ p"
proof -
  from assms have p: "dropWhile isspace p = p"
    by (cases p) simp_all
  have d: "dropWhile isspace (x @ p) = dropWhile isspace x @ p"
    by (simp add: dropWhile_append p)
  from assms(1) obtain q a where qa: "p = q @ [a]"
    by (metis rev_exhaust)
  with assms(3) have a: "\<not> isspace a" by simp
  have "dropWhile isspace (rev (dropWhile isspace x @ p)) = rev (dropWhile isspace x @ p)"
    unfolding qa using a by simp
  then show ?thesis
    unfolding strip_def d by simp
qed

lemma strip_stripped:
  assumes "strip s \<noteq> []"
  shows "\<not> isspace (hd (strip s)) \<and> \<not> isspace (last (strip s))"
proof -
  let ?d = "dropWhile isspace s"
  let ?e = "dropWhile isspace (rev ?d)"
  from assms have e: "?e \<noteq> []" by (simp add: strip_def)
  have d: "?d \<noteq> []"
  proof
    assume "?d = []"
    with e show False by simp
  qed
  have l: "\<not> isspace (hd ?e)" using e by (rule hd_dropWhile)
  have "last (strip s) = hd ?e" using e by (simp add: strip_def last_rev)
  with l have 1: "\<not> isspace (last (strip s))" by simp
  have "suffix ?e (rev ?d)" by (rule suffix_dropWhile)
  then have "prefix (strip s) ?d" by (simp add: strip_def suffix_to_prefix)
  with assms have "hd (strip s) = hd ?d" by (auto simp add: prefix_def)
  moreover have "\<not> isspace (hd ?d)" using d by (rule hd_dropWhile)
  ultimately show ?thesis using 1 by simp
qed

lemma paragraphs_of_stripped:
  "p \<in> set (paragraphs_of txt) \<Longrightarrow> p \<noteq> [] \<and> \<not> isspace (hd p) \<and> \<not> isspace (last p)"
  by (auto simp add: paragraphs_of_def strip_stripped)

lemma length_last_chars: "length (last_chars n s) \<le> n"
  by (simp add: last_chars_def)


lemma strip_buffer:
  assumes "p \<noteq> []" "\<not> isspace (hd p)" "\<not> isspace (last p)"
  shows "strip (x @ p @ asc '' '') = dropWhile isspace x @ p"
proof -
  have "strip (x @ p @ asc '' '') = strip ((x @ p) @ [32])"
    by (simp add: asc_space)
  also have "\<dots> = strip (x @ p)"
    by (rule strip_snoc_space) (rule isspace_32)
  also have "\<dots> = dropWhile isspace x @ p"
    using assms by (rule strip_append_stripped)
  finally show ?thesis .
qed

lemma buffer_bound:
  fixes cs ov :: int
  assumes p: "p \<in> set P" "p \<noteq> []" "\<not> isspace (hd p)" "\<not> isspace (last p)"
    and ov: "0 \<le> ov"
    and x: "int (length x) \<le> ov + 1 \<or> int (length x) + int (length p) \<le> cs"
  shows "int (length (strip (x @ p @ asc '' ''))) \<le> cs + ov + 1
         \<or> (\<exists>q\<in>set P. cs < int (length q) \<and> suffix q (strip (x @ p @ asc '' ''))
               \<and> int (length (strip (x @ p @ asc '' ''))) \<le> int (length q) + ov + 1)"
proof -
  have s: "strip (x @ p @ asc '' '') = dropWhile isspace x @ p"
    using p(2-4) by (rule strip_buffer)
  have le: "length (dropWhile isspace x) \<le> length x"
    by (rule length_dropWhile_le)
  show ?thesis
  proof (cases "int (length p) \<le> cs")
    case True
    with x le ov have "int (length (dropWhile isspace x @ p)) \<le> cs + ov + 1"
      by auto
    then show ?thesis by (simp only: s) simp
  next
    case False
    with x le ov have "int (length (dropWhile isspace x @ p)) \<le> int (length p) + ov + 1"
      by auto
    moreover have "suffix p (dropWhile isspace x @ p)"
      by (rule suffix_appendI) simp
    ultimately have "\<exists>q\<in>set P. cs < int (length q) \<and> suffix q (dropWhile isspace x @ p)
               \<and> int (length (dropWhile isspace x @ p)) \<le> int (length q) + ov + 1"
      using False p(1) by (intro bexI [of _ p]) auto
    then show ?thesis by (simp only: s) simp
  qed
qed

lemma chunk_loop_bound:
  fixes cs ov :: int and P :: "pystr list"
  defines "G \<equiv> \<lambda>c. int (length c) \<le> cs + ov + 1
             \<or> (\<exists>q\<in>set P. cs < int (length q) \<and> suffix q c
                   \<and> int (length c) \<le> int (length q) + ov + 1)"
  assumes ov: "0 \<le> ov"
    and stripped: "\<forall>p\<in>set P. p \<noteq> [] \<and> \<not> isspace (hd p) \<and> \<not> isspace (last p)"
    and ps: "set ps \<subseteq> set P"
    and chunks: "\<forall>c\<in>set chunks. G c"
    and cur: "cur = [] \<or> G (strip cur)"
  shows "(\<forall>c\<in>set (fst (chunk_loop cs ov ps (chunks, cur))). G c)
         \<and> (snd (chunk_loop cs ov ps (chunks, cur)) = []
              \<or> G (strip (snd (chunk_loop cs ov ps (chunks, cur)))))"
  using ps chunks cur
proof (induction ps arbitrary: chunks cur)
  case Nil
  then show ?case by simp
next
  case (Cons p ps)
  from Cons.prems(1) have pP: "p \<in> set P" and psP: "set ps \<subseteq> set P" by auto
  from pP stripped have pst: "p \<noteq> []" "\<not> isspace (hd p)" "\<not> isspace (last p)" by auto
  have good: "G (strip (x @ p @ asc '' ''))"
    if "int (length x) \<le> ov + 1 \<or> int (length x) + int (length p) \<le> cs" for x
    unfolding G_def using pP pst ov that by (rule buffer_bound)
  show ?case
  proof (cases "int (length cur) + int (length p) > cs \<and> cur \<noteq> []")
    case True
    let ?seed = "if ov > 0 then last_chars (nat ov) cur @ asc '' '' else []"
    have "length (last_chars (nat ov) cur) \<le> nat ov" by (rule length_last_chars)
    then have "int (length ?seed) \<le> ov + 1" using ov by (auto simp add: asc_space)
    then have g: "G (strip (?seed @ p @ asc '' ''))" by (intro good) simp
    from True Cons.prems(3) have "G (strip cur)" by simp
    with Cons.prems(2) have c: "\<forall>c\<in>set (chunks @ [strip cur]). G c" by simp
    from Cons.IH [OF psP c disjI2 [OF g]] True show ?thesis by simp
  next
    case False
    then have "int (length cur) \<le> ov + 1 \<or> int (length cur) + int (length p) \<le> cs"
      using ov by auto
    then have g: "G (strip (cur @ p @ asc '' ''))" by (rule good)
    from Cons.IH [OF psP Cons.prems(2) disjI2 [OF g]] False show ?thesis by auto
  qed
qed

subsection \<open>Ingestion orchestrator\<close>

lemma embed_chunks_data:
  "all_files_data (embed_chunks env f wl n ics run) =
     all_files_data run @ List.map_filter
       (\<lambda>(j, t). case generate_embedding env t of
                    Inr e \<Rightarrow> Some (new_chunk f wl n j t e) | Inl x \<Rightarrow> None) ics"
  by (induction ics arbitrary: run) (auto simp add: map_filter_simps split: sum.splits)

lemma embed_chunks_errors:
  "embedding_errors (embed_chunks env f wl n ics run) =
     embedding_errors run @ List.map_filter
       (\<lambda>(j, t). case generate_embedding env t of
                    Inl x \<Rightarrow> Some (error_msg env f j x) | Inr e \<Rightarrow> None) ics"
  by (induction ics arbitrary: run) (auto simp add: map_filter_simps split: sum.splits)

lemma process_file_prefix:
  "prefix (all_files_data run) (all_files_data (process_file env f run))
   \<and> prefix (embedding_errors run) (embedding_errors (process_file env f run))"
  by (simp add: process_file_def Let_def embed_chunks_data embed_chunks_errors split: sum.splits)

lemma process_files_prefix:
  "prefix (all_files_data run) (all_files_data (process_files env fs run))
   \<and> prefix (embedding_errors run) (embedding_errors (process_files env fs run))"
proof (induction fs arbitrary: run)
  case Nil
  then show ?case by simp
next
  case (Cons f fs)
  from Cons.IH [of "process_file env f run"] process_file_prefix [of run env f]
  show ?case by (auto intro: prefix_order.trans)
qed

lemma process_files_append:
  "process_files env (xs @ ys) run = process_files env ys (process_files env xs run)"
  by (induction xs arbitrary: run) simp_all

lemma set_map_filter_iff:
  "y \<in> set (List.map_filter g xs) \<longleftrightarrow> (\<exists>x\<in>set xs. g x = Some y)"
  by (induction xs) (auto simp add: map_filter_simps split: option.splits)

subsection \<open>Evaluation on the concrete inputs\<close>

lemma ex_extract:
  "extract_content env_mixed ex_file1 = Inr (asc ''hola'')"
  "extract_content env_mixed ex_file2 = Inr (asc ''adios'')"
  "extract_content env_fail ex_file2 = Inr (asc ''adios'')"
  by (simp_all add: extract_content_def download_file_def env_mixed_def env_fail_def
      ex_file1_def ex_file2_def asc_def)

lemma ex_split:
  "split_text_into_chunks (asc ''hola'') 3000 300 = [asc ''hola'']"
  "split_text_into_chunks (asc ''adios'') 3000 300 = [asc ''adios'']"
  by (simp_all add: split_text_into_chunks_def paragraphs_of_def strip_def isspace_def asc_def)

lemma ex_embed:
  "generate_embedding env_mixed (asc ''hola'') = Inr [Finite 1, Finite 0]"
  "generate_embedding env_mixed (asc ''adios'') = Inl ex_error"
  "generate_embedding env_fail (asc ''adios'') = Inl ex_error"
  by (simp_all add: generate_embedding_def env_mixed_def env_fail_def ex_error_def asc_def)

lemma ex_error_msg:
  "error_msg env_mixed ex_file2 0 ex_error
     = asc ''b.pdf chunk 0: Error al generar embedding: boom''"
  "error_msg env_fail ex_file2 0 ex_error
     = asc ''b.pdf chunk 0: Error al generar embedding: boom''"
  by (simp_all add: error_msg_def env_mixed_def env_fail_def ex_error_def ex_file2_def asc_def
      str_nat.simps)

lemma ex_links: "web_view_link ex_file1 = None" "web_view_link ex_file2 = None"
  by (simp_all add: ex_file1_def ex_file2_def)

lemma ex_process_file1:
  "process_file env_mixed ex_file1 ex_run0
     = \<lparr>all_files_data = [new_chunk ex_file1 (asc ''No disponible'') 1 0 (asc ''hola'')
                             [Finite 1, Finite 0]],
        embedding_errors = []\<rparr>"
  by (simp add: process_file_def ex_extract ex_split ex_embed ex_run0_def ex_links)

lemma ex_process_file2:
  "process_file env_mixed ex_file2 run
     = run\<lparr>embedding_errors := embedding_errors run
              @ [asc ''b.pdf chunk 0: Error al generar embedding: boom'']\<rparr>"
  "process_file env_fail ex_file2 run
     = run\<lparr>embedding_errors := embedding_errors run
              @ [asc ''b.pdf chunk 0: Error al generar embedding: boom'']\<rparr>"
  by (simp_all add: process_file_def ex_extract ex_split ex_embed ex_error_msg)

lemma ex_listing:
  "list_files_in_folder env_mixed (asc ''F'') = Inr [ex_file1, ex_file2]"
  "list_files_in_folder env_fail (asc ''F'') = Inr [ex_file2]"
  by (simp_all add: list_files_in_folder_def env_mixed_def env_fail_def)

lemma MAX_DOUBLE_bounds:
  "1 \<le> MAX_DOUBLE" "ex_big \<le> MAX_DOUBLE" "ex_big * ex_big \<le> MAX_DOUBLE"
  "MAX_DOUBLE < ex_big * ex_huge" "MAX_DOUBLE < ex_huge * ex_huge" "0 < ex_big"
  by (simp_all add: MAX_DOUBLE_def ex_big_def ex_huge_def)

lemma overflow_Finite: "\<bar>x\<bar> \<le> MAX_DOUBLE \<Longrightarrow> overflow x = Finite x"
  by (auto simp add: overflow_def)

lemma overflow_PosInf: "MAX_DOUBLE < x \<Longrightarrow> overflow x = PosInf"
  by (simp add: overflow_def)

lemma ex_overflow:
  "overflow 0 = Finite 0" "overflow 1 = Finite 1" "overflow ex_big = Finite ex_big"
  "overflow (ex_big * ex_big) = Finite (ex_big * ex_big)"
  "overflow (ex_big * ex_huge) = PosInf" "overflow (ex_huge * ex_huge) = PosInf"
  using MAX_DOUBLE_bounds
  by (simp_all add: overflow_Finite overflow_PosInf abs_if)

lemma ex_cosine:
  "cosine_similarity ex_np [Finite 1, Finite 0] [Finite 0, Finite 1] = Inr (Finite 0)"
  "cosine_similarity ex_np [Finite 1, Finite 0] [Finite 1, Finite 0] = Inr (Finite 1)"
  "cosine_similarity ex_np [Finite 0, Finite 0] [Finite 1, Finite 0] = Inr (Finite 0)"
  by (simp_all add: cosine_similarity_def np_dot_def ex_np_def ex_dot_def ex_norm_def
      ex_overflow)


section \<open>Properties\<close>

text \<open>
  Claim C4. \<^verbatim>\<open>is_cache_valid(scope)\<close> is true if and only if a snapshot exists for the
  scope (the cache is not empty, its \<^verbatim>\<open>folder_id\<close> is the scope and a timestamp is
  present), the snapshot holds at least one chunk, and its age is below the staleness
  bound; a snapshot without chunks is invalid, however fresh.
\<close>

theorem is_cache_valid_iff:
  "(is_cache_valid c now fid \<longleftrightarrow>
      (\<exists>ts. (c \<noteq> empty_cache \<and> folder_id c = Some fid \<and> timestamp c = Some ts)
           \<and> 1 \<le> length (get_cached_files c)
           \<and> now - ts < timedelta_hours CACHE_TTL_HOURS))
   \<and> (get_cached_files c = [] \<longrightarrow> \<not> is_cache_valid c now fid)"
  by (auto simp add: is_cache_valid_def get_cached_files_def Let_def Suc_le_eq
      split: option.splits)

text \<open>A snapshot with one chunk is valid for its scope; the same snapshot without chunks is not.\<close>

theorem is_cache_valid_iff_witness:
  "is_cache_valid \<lparr>timestamp = Some 0, folder_id = Some (asc ''F''),
       files_data = Some [ex_chunk], total_files = Some 1\<rparr> 5 (asc ''F'')
   \<and> \<not> is_cache_valid \<lparr>timestamp = Some 0, folder_id = Some (asc ''F''),
       files_data = Some [], total_files = Some 0\<rparr> 5 (asc ''F'')"
  using is_cache_valid_iff [of "\<lparr>timestamp = Some 0, folder_id = Some (asc ''F''),
       files_data = Some [ex_chunk], total_files = Some 1\<rparr>" 5 "asc ''F''"]
    is_cache_valid_iff [of "\<lparr>timestamp = Some 0, folder_id = Some (asc ''F''),
       files_data = Some [], total_files = Some 0\<rparr>" 5 "asc ''F''"]
  by (simp add: get_cached_files_def empty_cache_def timedelta_hours_def CACHE_TTL_HOURS_def)

text \<open>
  Claim C7. \<^verbatim>\<open>invalidate_cache()\<close> clears the volatile snapshot: the cache is the
  empty dictionary afterwards, it holds no chunk, and it is valid for no scope at any
  time. The table \<^verbatim>\<open>document_chunks\<close> and the database are as before.
\<close>

theorem invalidate_cache_frame:
  "CACHE (invalidate_cache st) = empty_cache
   \<and> get_cached_files (CACHE (invalidate_cache st)) = []
   \<and> (\<forall>now fid. \<not> is_cache_valid (CACHE (invalidate_cache st)) now fid)
   \<and> DB (invalidate_cache st) = DB st
   \<and> SessionLocal (invalidate_cache st) = SessionLocal st
   \<and> db_accepts (invalidate_cache st) = db_accepts st"
  by (simp add: invalidate_cache_def invalid_empty_cache get_cached_files_def
      files_data_empty_cache)

text \<open>
  Claim C9. The volatile cache holds one scope at most: whatever its content, it is
  valid for one \<^verbatim>\<open>folder_id\<close> at most; after \<^verbatim>\<open>update_cache\<close> for a scope it holds
  that scope and the given chunks, and it is valid for no other scope.
\<close>

theorem cache_single_scope:
  "(is_cache_valid c now a \<and> is_cache_valid c now' b \<longrightarrow> a = b)
   \<and> folder_id (CACHE (update_cache t fid fdata st)) = Some fid
   \<and> files_data (CACHE (update_cache t fid fdata st)) = Some fdata
   \<and> (other \<noteq> fid \<longrightarrow> \<not> is_cache_valid (CACHE (update_cache t fid fdata st)) now other)"
  by (auto simp add: CACHE_update_cache is_cache_valid_def split: if_splits)

text \<open>
  After the cache is replaced for the scope \<^verbatim>\<open>A\<close> it is valid for \<^verbatim>\<open>A\<close> and not
  for \<^verbatim>\<open>B\<close>.
\<close>

theorem cache_single_scope_witness:
  "asc ''B'' \<noteq> asc ''A''
   \<and> is_cache_valid (CACHE (update_cache 0 (asc ''A'') [ex_chunk] st0)) 5 (asc ''A'')
   \<and> \<not> is_cache_valid (CACHE (update_cache 0 (asc ''A'') [ex_chunk] st0)) 5 (asc ''B'')"
proof -
  have ne: "asc ''B'' \<noteq> asc ''A''" by (simp add: asc_def)
  have v: "is_cache_valid (CACHE (update_cache 0 (asc ''A'') [ex_chunk] st0)) 5 (asc ''A'')"
    by (simp add: CACHE_update_cache is_cache_valid_def empty_cache_def timedelta_hours_def
        CACHE_TTL_HOURS_def)
  from cache_single_scope [where t = 0 and fid = "asc ''A''" and fdata = "[ex_chunk]"
      and st = st0 and other = "asc ''B''" and now = 5] ne v
  show ?thesis by simp
qed

text \<open>
  Claim C10. Whenever \<^verbatim>\<open>warmup_cache\<close>, run on the invalidated cache, returns a
  result instead of raising, \<^verbatim>\<open>refresh_cache\<close> returns \<^verbatim>\<open>success = true\<close> and
  \<^verbatim>\<open>cache_status = "refreshed"\<close>, whatever the \<^verbatim>\<open>success\<close> of that result.
\<close>

theorem refresh_cache_success:
  assumes "warmup_cache env t1 t2 (invalidate_cache st) = (Inr result, st')"
  shows "\<exists>res. refresh_cache env t1 t2 st = (Inr res, st') \<and> r_success res
           \<and> r_cache_status res = asc ''refreshed''"
  using assms by (simp add: refresh_cache_def)

text \<open>
  With an empty folder the warmup returns \<^verbatim>\<open>success = false\<close>, and the refresh
  still reports success.
\<close>

theorem refresh_cache_success_witness:
  "warmup_cache env_nofiles 0 0 (invalidate_cache st0) = (Inr empty_result, invalidate_cache st0)
   \<and> \<not> w_success empty_result
   \<and> (\<exists>res. refresh_cache env_nofiles 0 0 st0 = (Inr res, invalidate_cache st0) \<and> r_success res
           \<and> r_cache_status res = asc ''refreshed'')"
proof -
  have w: "warmup_cache env_nofiles 0 0 (invalidate_cache st0)
             = (Inr empty_result, invalidate_cache st0)"
    by (simp add: warmup_cache_def env_nofiles_def env_mixed_def invalidate_cache_def
        invalid_empty_cache get_drive_service_def list_files_in_folder_def asc_def)
  from refresh_cache_success [OF w] w show ?thesis
    by (simp add: empty_result_def)
qed







text \<open>
  Claim C5, amended. For \<open>chunk_size > 0\<close> and \<open>overlap \<ge> 0\<close>, a chunk produced by
  \<^verbatim>\<open>split_text_into_chunks\<close> has at most \<open>chunk_size + overlap + 1\<close> characters, unless
  it ends with a paragraph longer than \<open>chunk_size\<close>; it then has at most
  \<open>overlap + 1\<close> characters more than that paragraph. The additional character is the
  space put between the carried-over tail and the next paragraph.
\<close>

theorem split_text_into_chunks_bound:
  assumes "0 < chunk_size" and "0 \<le> overlap"
    and "c \<in> set (split_text_into_chunks txt chunk_size overlap)"
  shows "int (length c) \<le> chunk_size + overlap + 1
         \<or> (\<exists>p\<in>set (paragraphs_of txt). chunk_size < int (length p) \<and> suffix p c
               \<and> int (length c) \<le> int (length p) + overlap + 1)"
proof -
  let ?P = "paragraphs_of txt"
  let ?r = "chunk_loop chunk_size overlap ?P ([], [])"
  have st: "\<forall>p\<in>set ?P. p \<noteq> [] \<and> \<not> isspace (hd p) \<and> \<not> isspace (last p)"
    using paragraphs_of_stripped by blast
  note inv = chunk_loop_bound [OF assms(2) st subset_refl,
      where chunks = "[]" and cur = "[]" and cs = chunk_size]
  obtain chunks cur where r: "?r = (chunks, cur)" by (cases ?r)
  from assms(3) have "c \<in> set chunks \<or> (cur \<noteq> [] \<and> c = strip cur)"
    by (auto simp add: split_text_into_chunks_def r strip_def split: if_splits)
  then show ?thesis using inv by (auto simp add: r)
qed

text \<open>
  The second chunk of the text \<^verbatim>\<open>aaaaa\nbbbbb\<close> for \<open>chunk_size = 5\<close> and
  \<open>overlap = 2\<close> has \<open>8 = 5 + 2 + 1\<close> characters.
\<close>

theorem split_text_into_chunks_bound_witness:
  "(0::int) < 5 \<and> (0::int) \<le> 2
   \<and> asc ''a  bbbbb'' \<in> set (split_text_into_chunks ex_text 5 2)
   \<and> (int (length (asc ''a  bbbbb'')) \<le> 5 + 2 + 1
        \<or> (\<exists>p\<in>set (paragraphs_of ex_text). 5 < int (length p) \<and> suffix p (asc ''a  bbbbb'')
              \<and> int (length (asc ''a  bbbbb'')) \<le> int (length p) + 2 + 1))"
proof -
  have a: "(0::int) < 5" and b: "(0::int) \<le> 2" by simp_all
  have m: "asc ''a  bbbbb'' \<in> set (split_text_into_chunks ex_text 5 2)"
    by (simp add: split_text_into_chunks_def paragraphs_of_def strip_def isspace_def asc_def
        last_chars_def ex_text_def)
  from split_text_into_chunks_bound [OF a b m] a b m show ?thesis by simp
qed

text \<open>
  Claim C5 as stated fails on that text: both paragraphs have \<open>chunk_size = 5\<close>
  characters, none is longer, and the second chunk has \<open>8\<close> characters, more than
  \<open>chunk_size + overlap = 7\<close>.
\<close>

theorem split_text_into_chunks_counterexample:
  "(0::int) < 5 \<and> (0::int) \<le> 2
   \<and> paragraphs_of ex_text = [asc ''aaaaa'', asc ''bbbbb'']
   \<and> split_text_into_chunks ex_text 5 2 = [asc ''aaaaa'', asc ''a  bbbbb'']
   \<and> length (asc ''aaaaa'') = 5 \<and> length (asc ''bbbbb'') = 5
   \<and> int (length (asc ''a  bbbbb'')) > 5 + 2"
  by (simp add: split_text_into_chunks_def paragraphs_of_def strip_def isspace_def asc_def
      last_chars_def ex_text_def)

text \<open>
  Claim C1, amended. After \<^verbatim>\<open>update_cache\<close> (which calls \<^verbatim>\<open>save_chunks_to_db\<close>)
  with the chunk list \<open>C\<close>, the volatile snapshot holds all of \<open>C\<close>. The durable table
  receives a row only for the chunks of \<open>C\<close> that have an embedding: when the database
  is configured and the transaction succeeds (no two rows share a \<^verbatim>\<open>chunk_id\<close> and
  the database accepts the inserted rows), its rows are the rows of the other scopes
  followed by those rows; otherwise the transaction is rolled back and the table is
  unchanged. A chunk whose embedding is null is therefore never written. Chunks
  without an embedding are excluded from the embedding-based reads: the chunks loaded
  from the table and the chunks ranked by \<^verbatim>\<open>buscar_normativa\<close> all have an embedding.
\<close>

theorem update_cache_persistence:
  "files_data (CACHE (update_cache now fid C st)) = Some C
   \<and> DB (update_cache now fid C st) =
       (let rows = filter (\<lambda>r. db_folder_id r \<noteq> fid) (DB st)
                     @ List.map_filter (\<lambda>c. map_option (to_row now fid c) (embedding c)) C
        in if SessionLocal st \<and> distinct (map db_chunk_id rows)
              \<and> db_accepts st (List.map_filter
                    (\<lambda>c. map_option (to_row now fid c) (embedding c)) C)
           then rows else DB st)
   \<and> (\<forall>r\<in>set (DB (update_cache now fid C st)).
         r \<in> set (DB st) \<or> (\<exists>c\<in>set C. \<exists>e. embedding c = Some e \<and> r = to_row now fid c e))
   \<and> (\<forall>c\<in>set (load_chunks_from_db (update_cache now fid C st) fid'). embedding c \<noteq> None)
   \<and> (buscar_normativa_top_chunks env termino C = Inr (Ranked ranked) \<longrightarrow>
         (\<forall>r\<in>set ranked. item r \<in> set C \<and> embedding (item r) \<noteq> None))"
proof (intro conjI)
  show "files_data (CACHE (update_cache now fid C st)) = Some C"
    by (simp add: CACHE_update_cache)
  show "DB (update_cache now fid C st) =
       (let rows = filter (\<lambda>r. db_folder_id r \<noteq> fid) (DB st)
                     @ List.map_filter (\<lambda>c. map_option (to_row now fid c) (embedding c)) C
        in if SessionLocal st \<and> distinct (map db_chunk_id rows)
              \<and> db_accepts st (List.map_filter
                    (\<lambda>c. map_option (to_row now fid c) (embedding c)) C)
           then rows else DB st)"
    by (rule DB_update_cache)
  show "\<forall>r\<in>set (DB (update_cache now fid C st)).
         r \<in> set (DB st) \<or> (\<exists>c\<in>set C. \<exists>e. embedding c = Some e \<and> r = to_row now fid c e)"
  proof
    fix r
    assume r: "r \<in> set (DB (update_cache now fid C st))"
    let ?new = "List.map_filter (\<lambda>c. map_option (to_row now fid c) (embedding c)) C"
    from r have "r \<in> set (DB st) \<or> r \<in> set ?new"
      by (auto simp add: DB_update_cache Let_def split: if_splits)
    then show "r \<in> set (DB st)
        \<or> (\<exists>c\<in>set C. \<exists>e. embedding c = Some e \<and> r = to_row now fid c e)"
    proof
      assume "r \<in> set (DB st)"
      then show ?thesis ..
    next
      assume "r \<in> set ?new"
      then obtain c where "c \<in> set C" "map_option (to_row now fid c) (embedding c) = Some r"
        by (auto simp add: set_map_filter_iff)
      then show ?thesis by auto
    qed
  qed
  show "\<forall>c\<in>set (load_chunks_from_db (update_cache now fid C st) fid'). embedding c \<noteq> None"
    by (auto simp add: load_chunks_from_db_def)
  show "buscar_normativa_top_chunks env termino C = Inr (Ranked ranked) \<longrightarrow>
         (\<forall>r\<in>set ranked. item r \<in> set C \<and> embedding (item r) \<noteq> None)"
  proof
    assume a: "buscar_normativa_top_chunks env termino C = Inr (Ranked ranked)"
    then obtain t where "semantic_search env t (filter (\<lambda>c. embedding c \<noteq> None) C)
        MAX_CHUNKS_IN_RESPONSE = Inr ranked"
      by (auto simp add: buscar_normativa_top_chunks_def Let_def
          split: option.splits if_splits sum.splits)
    from semantic_search_items [OF this]
    show "\<forall>r\<in>set ranked. item r \<in> set C \<and> embedding (item r) \<noteq> None" by auto
  qed
qed

text \<open>
  A chunk with an embedding and a chunk without: both are in the volatile snapshot,
  only the first is in the table, and only the first is ranked. When a second embedded
  chunk has a text that the database rejects, the transaction is rolled back and the
  table stays empty.
\<close>

theorem update_cache_persistence_witness:
  "files_data (CACHE (update_cache 0 (asc ''F'') [ex_chunk, ex_null] st0)) = Some [ex_chunk, ex_null]
   \<and> DB (update_cache 0 (asc ''F'') [ex_chunk, ex_null] st0)
       = [to_row 0 (asc ''F'') ex_chunk [Finite 1, Finite 0]]
   \<and> buscar_normativa_top_chunks env_mixed (Some (asc ''hola'')) [ex_chunk, ex_null]
       = Inr (Ranked [\<lparr>item = ex_chunk, similarity = Finite 1\<rparr>])
   \<and> item \<lparr>item = ex_chunk, similarity = Finite 1\<rparr> \<in> set [ex_chunk, ex_null]
   \<and> embedding (item \<lparr>item = ex_chunk, similarity = Finite 1\<rparr>) \<noteq> None
   \<and> DB (update_cache 0 (asc ''F'') [ex_chunk, ex_nul] st0) = []"
proof -
  have npm: "np env_mixed = ex_np" by (simp add: env_mixed_def)
  have ne: "asc ''hola'' \<noteq> []" by (simp add: asc_def)
  have b: "buscar_normativa_top_chunks env_mixed (Some (asc ''hola'')) [ex_chunk, ex_null]
       = Inr (Ranked [\<lparr>item = ex_chunk, similarity = Finite 1\<rparr>])"
    by (simp add: buscar_normativa_top_chunks_def semantic_search_def ex_embed npm ex_cosine
        ex_chunk_def ex_null_def slice_to_def list_sort_reverse_def MAX_CHUNKS_IN_RESPONSE_def ne)
  note t = update_cache_persistence [of 0 "asc ''F''" "[ex_chunk, ex_null]" st0 "asc ''F''"
      env_mixed "Some (asc ''hola'')" "[\<lparr>item = ex_chunk, similarity = Finite 1\<rparr>]"]
  have d: "DB (update_cache 0 (asc ''F'') [ex_chunk, ex_null] st0)
             = [to_row 0 (asc ''F'') ex_chunk [Finite 1, Finite 0]]"
    using t [THEN conjunct2, THEN conjunct1]
    by (simp add: st0_def map_filter_simps ex_chunk_def ex_null_def to_row_def asc_def)
  from t [THEN conjunct2, THEN conjunct2, THEN conjunct2, THEN conjunct2, THEN mp, OF b]
  have "item \<lparr>item = ex_chunk, similarity = Finite 1\<rparr> \<in> set [ex_chunk, ex_null]
          \<and> embedding (item \<lparr>item = ex_chunk, similarity = Finite 1\<rparr>) \<noteq> None"
    by simp
  moreover have "DB (update_cache 0 (asc ''F'') [ex_chunk, ex_nul] st0) = []"
    using update_cache_persistence [of 0 "asc ''F''" "[ex_chunk, ex_nul]" st0,
        THEN conjunct2, THEN conjunct1]
    by (simp add: st0_def map_filter_simps ex_chunk_def ex_nul_def to_row_def asc_def)
  ultimately show ?thesis using t [THEN conjunct1] d b by (intro conjI) simp_all
qed

text \<open>
  Claim C1 as stated fails: a chunk list holding only a chunk with a null embedding
  leaves the table empty, so that chunk is not written to durable storage.
\<close>

theorem update_cache_null_counterexample:
  "embedding ex_null = None \<and> SessionLocal st0 \<and> DB st0 = [] \<and> db_accepts st0 []
   \<and> files_data (CACHE (update_cache 0 (asc ''F'') [ex_null] st0)) = Some [ex_null]
   \<and> DB (update_cache 0 (asc ''F'') [ex_null] st0) = []"
  by (simp add: update_cache_def save_chunks_to_db_def st0_def ex_null_def)

text \<open>
  Claim C2, amended. Let the text of a document \<open>f\<close> be extracted and let the
  generation of the embedding fail for its chunk number \<open>i\<close>. Then the document and the
  run are not aborted: every chunk of \<open>f\<close> whose embedding is generated is appended to
  \<^verbatim>\<open>all_files_data\<close>, and the files after \<open>f\<close> are processed. The failing chunk is not
  appended: the chunks of \<open>f\<close> that are appended all have an embedding and an index
  other than \<open>i\<close>, so the failing chunk is neither ranked nor counted in the
  \<^verbatim>\<open>total_chunks\<close> of the result. The text of the failure is appended to
  \<^verbatim>\<open>embedding_errors\<close>, stays there to the end of the run, and the result returns the
  first five texts of that list and its length.
\<close>

theorem embedding_failure_isolated:
  assumes ext: "extract_content env f = Inr content"
    and chunks: "chunks = split_text_into_chunks content 3000 300"
    and web_link: "web_link = (case web_view_link f of None \<Rightarrow> asc ''No disponible'' | Some l \<Rightarrow> l)"
    and i: "i < length chunks"
    and fail: "generate_embedding env (chunks ! i) = Inl err"
    and run1: "run1 = process_files env pre run0"
    and run2: "run2 = process_file env f run1"
    and final: "final = process_files env (pre @ f # post) run0"
  shows "all_files_data run2 = all_files_data run1 @ List.map_filter
           (\<lambda>(j, t). case generate_embedding env t of
                        Inr e \<Rightarrow> Some (new_chunk f web_link (length chunks) j t e)
                      | Inl x \<Rightarrow> None) (enumerate 0 chunks)
       \<and> (\<forall>c\<in>set (drop (length (all_files_data run1)) (all_files_data run2)).
             chunk_index c \<noteq> i \<and> embedding c \<noteq> None)
       \<and> embedding_errors run2 = embedding_errors run1 @ List.map_filter
           (\<lambda>(j, t). case generate_embedding env t of
                        Inl x \<Rightarrow> Some (error_msg env f j x) | Inr e \<Rightarrow> None) (enumerate 0 chunks)
       \<and> error_msg env f i err \<in> set (embedding_errors run2)
       \<and> final = process_files env post run2
       \<and> prefix (all_files_data run2) (all_files_data final)
       \<and> prefix (embedding_errors run2) (embedding_errors final)
       \<and> error_msg env f i err \<in> set (embedding_errors final)
       \<and> w_total_chunks (run_result final) = Some (length (all_files_data final))
       \<and> w_embedding_errors (run_result final) = Some (take 5 (embedding_errors final))
       \<and> w_total_errors (run_result final) = Some (length (embedding_errors final))"
proof -
  let ?ok = "\<lambda>(j, t). case generate_embedding env t of
                        Inr e \<Rightarrow> Some (new_chunk f web_link (length chunks) j t e)
                      | Inl x \<Rightarrow> None"
  let ?ko = "\<lambda>(j, t). case generate_embedding env t of
                        Inl x \<Rightarrow> Some (error_msg env f j x) | Inr e \<Rightarrow> None"
  have data: "all_files_data run2 = all_files_data run1 @ List.map_filter ?ok (enumerate 0 chunks)"
    unfolding run2 chunks web_link by (simp add: process_file_def ext Let_def embed_chunks_data)
  have errs: "embedding_errors run2
      = embedding_errors run1 @ List.map_filter ?ko (enumerate 0 chunks)"
    unfolding run2 chunks web_link by (simp add: process_file_def ext Let_def embed_chunks_errors)
  have new: "chunk_index c \<noteq> i \<and> embedding c \<noteq> None"
    if "c \<in> set (List.map_filter ?ok (enumerate 0 chunks))" for c
  proof -
    from that obtain j t where jt: "(j, t) \<in> set (enumerate 0 chunks)" and c: "?ok (j, t) = Some c"
      by (auto simp add: set_map_filter_iff)
    from jt have t: "t = chunks ! j" by (simp add: in_set_enumerate_eq)
    from c obtain e where e: "generate_embedding env t = Inr e"
      and c': "c = new_chunk f web_link (length chunks) j t e"
      by (auto split: sum.splits)
    from e t fail have "j \<noteq> i" by auto
    with c' show ?thesis by (simp add: new_chunk_def)
  qed
  have "(i, chunks ! i) \<in> set (enumerate 0 chunks)"
    using i by (simp add: in_set_enumerate_eq)
  moreover have "?ko (i, chunks ! i) = Some (error_msg env f i err)"
    using fail by simp
  ultimately have "error_msg env f i err \<in> set (List.map_filter ?ko (enumerate 0 chunks))"
    unfolding set_map_filter_iff by blast
  then have in2: "error_msg env f i err \<in> set (embedding_errors run2)"
    by (simp add: errs)
  have fin: "final = process_files env post run2"
    unfolding final run2 run1 by (simp add: process_files_append)
  have p1: "prefix (all_files_data run2) (all_files_data final)"
    and p2: "prefix (embedding_errors run2) (embedding_errors final)"
    unfolding fin using process_files_prefix [of run2 env post] by simp_all
  from p2 in2 have inf: "error_msg env f i err \<in> set (embedding_errors final)"
    using set_mono_prefix by blast
  then have ne: "embedding_errors final \<noteq> []" by auto
  show ?thesis
  proof (intro conjI)
    show "\<forall>c\<in>set (drop (length (all_files_data run1)) (all_files_data run2)).
             chunk_index c \<noteq> i \<and> embedding c \<noteq> None"
      using new by (simp add: data)
    show "w_total_chunks (run_result final) = Some (length (all_files_data final))"
      by (simp add: run_result_def)
    show "w_embedding_errors (run_result final) = Some (take 5 (embedding_errors final))"
      using ne by (simp add: run_result_def)
    show "w_total_errors (run_result final) = Some (length (embedding_errors final))"
      using ne by (simp add: run_result_def)
  qed (fact data errs in2 fin p1 p2 inf)+
qed

text \<open>
  A folder of two documents, where the only chunk of the second fails: the chunk of the
  first document is in the corpus list, the failure text is in the error list, and the
  result reports one error.
\<close>

theorem embedding_failure_isolated_witness:
  "extract_content env_mixed ex_file2 = Inr (asc ''adios'')
   \<and> (0::nat) < length (split_text_into_chunks (asc ''adios'') 3000 300)
   \<and> generate_embedding env_mixed (split_text_into_chunks (asc ''adios'') 3000 300 ! 0) = Inl ex_error
   \<and> process_files env_mixed ([ex_file1] @ ex_file2 # []) ex_run0
       = \<lparr>all_files_data = [new_chunk ex_file1 (asc ''No disponible'') 1 0 (asc ''hola'')
                             [Finite 1, Finite 0]],
          embedding_errors = [asc ''b.pdf chunk 0: Error al generar embedding: boom'']\<rparr>
   \<and> error_msg env_mixed ex_file2 0 ex_error
       \<in> set (embedding_errors (process_files env_mixed ([ex_file1] @ ex_file2 # []) ex_run0))
   \<and> w_total_chunks (run_result (process_files env_mixed ([ex_file1] @ ex_file2 # []) ex_run0))
       = Some 1
   \<and> w_total_errors (run_result (process_files env_mixed ([ex_file1] @ ex_file2 # []) ex_run0))
       = Some 1"
proof -
  have i: "(0::nat) < length (split_text_into_chunks (asc ''adios'') 3000 300)"
    by (simp add: ex_split)
  have fail: "generate_embedding env_mixed (split_text_into_chunks (asc ''adios'') 3000 300 ! 0)
      = Inl ex_error"
    by (simp add: ex_split ex_embed)
  have ev: "process_files env_mixed ([ex_file1] @ ex_file2 # []) ex_run0
       = \<lparr>all_files_data = [new_chunk ex_file1 (asc ''No disponible'') 1 0 (asc ''hola'')
                             [Finite 1, Finite 0]],
          embedding_errors = [asc ''b.pdf chunk 0: Error al generar embedding: boom'']\<rparr>"
    by (simp add: ex_process_file1 ex_process_file2)
  note t = embedding_failure_isolated [OF ex_extract(2) refl refl i fail refl refl refl,
      of "[ex_file1]" ex_run0 "[]"]
  note t8 = t [THEN conjunct2, THEN conjunct2, THEN conjunct2, THEN conjunct2, THEN conjunct2,
      THEN conjunct2, THEN conjunct2]
  have "w_total_chunks (run_result (process_files env_mixed ([ex_file1] @ ex_file2 # []) ex_run0))
       = Some 1"
    using t8 [THEN conjunct2, THEN conjunct1] unfolding ev by simp
  moreover have "w_total_errors (run_result (process_files env_mixed ([ex_file1] @ ex_file2 # []) ex_run0))
       = Some 1"
    using t8 [THEN conjunct2, THEN conjunct2, THEN conjunct2] unfolding ev by simp
  ultimately show ?thesis using ex_extract(2) i fail ev t8 [THEN conjunct1] by (intro conjI)
qed

text \<open>
  Claim C2 as stated fails: when the embedding of the only chunk of a document fails,
  nothing is appended to the corpus list; only the error text is recorded.
\<close>

theorem embedding_failure_counterexample:
  "extract_content env_mixed ex_file2 = Inr (asc ''adios'')
   \<and> split_text_into_chunks (asc ''adios'') 3000 300 = [asc ''adios'']
   \<and> generate_embedding env_mixed (asc ''adios'') = Inl ex_error
   \<and> process_file env_mixed ex_file2 ex_run0
       = \<lparr>all_files_data = [],
          embedding_errors = [asc ''b.pdf chunk 0: Error al generar embedding: boom'']\<rparr>"
  by (simp add: ex_extract ex_split ex_embed ex_process_file2 ex_run0_def)

text \<open>
  Claim C3, amended. Let the configuration be complete, the cache invalid, and the
  connection to Drive and the listing succeed. When the listing is empty,
  \<^verbatim>\<open>warmup_cache\<close> returns \<^verbatim>\<open>success = false\<close> with \<^verbatim>\<open>total_files = 0\<close> and
  leaves the state as it is. Otherwise it replaces the cache by the assembled corpus
  list and returns a result whose \<^verbatim>\<open>success\<close> is true exactly when that list holds a
  chunk, however many extractions or embeddings failed. The result carries the number
  of chunks of that list as \<^verbatim>\<open>total_chunks\<close>, and as \<^verbatim>\<open>total_documents\<close> the number
  of distinct \<^verbatim>\<open>source_document\<close> names among the chunks of that list, which is not
  the number of listed documents: a document none of whose chunks was assembled is not
  counted. When an embedding failed it carries the first five error texts and the
  number of errors; without an embedding failure it has no error summary.
\<close>

theorem warmup_cache_result:
  assumes fid: "FOLDER_ID env = Some fid" "fid \<noteq> []"
    and client: "openai_client env \<noteq> None"
    and invalid: "\<not> is_cache_valid (CACHE st) t_check fid"
    and drive: "get_drive_service env = Inr ()"
    and listing: "list_files_in_folder env fid = Inr files"
    and run: "run = process_files env files \<lparr>all_files_data = [], embedding_errors = []\<rparr>"
  shows "(files = [] \<longrightarrow>
            (\<exists>res. warmup_cache env t_check t_update st = (Inr res, st)
               \<and> \<not> w_success res \<and> w_total_files res = Some 0
               \<and> w_cache_status res = asc ''empty''))
       \<and> (files \<noteq> [] \<longrightarrow>
            (\<exists>res. warmup_cache env t_check t_update st
                     = (Inr res, update_cache t_update fid (all_files_data run) st)
               \<and> (w_success res \<longleftrightarrow> 0 < length (all_files_data run))
               \<and> w_total_chunks res = Some (length (all_files_data run))
               \<and> w_total_documents res
                   = Some (card (source_document ` set (all_files_data run)))
               \<and> w_embedding_errors res
                   = (if embedding_errors run = [] then None
                      else Some (take 5 (embedding_errors run)))
               \<and> w_total_errors res
                   = (if embedding_errors run = [] then None
                      else Some (length (embedding_errors run)))))"
  using assms
  by (simp add: warmup_cache_def empty_result_def run_result_def unique_docs_def Let_def)

text \<open>
  The folder of two documents: the result reports success, one chunk, one error, and
  one document, the only one with an assembled chunk.
\<close>

theorem warmup_cache_result_witness:
  "FOLDER_ID env_mixed = Some (asc ''F'') \<and> asc ''F'' \<noteq> [] \<and> openai_client env_mixed \<noteq> None
   \<and> \<not> is_cache_valid (CACHE st0) 0 (asc ''F'')
   \<and> get_drive_service env_mixed = Inr ()
   \<and> list_files_in_folder env_mixed (asc ''F'') = Inr [ex_file1, ex_file2]
   \<and> [ex_file1, ex_file2] \<noteq> []
   \<and> (\<exists>res. fst (warmup_cache env_mixed 0 0 st0) = Inr res
         \<and> w_success res \<and> w_total_chunks res = Some 1 \<and> w_total_documents res = Some 1
         \<and> w_embedding_errors res
             = Some [asc ''b.pdf chunk 0: Error al generar embedding: boom'']
         \<and> w_total_errors res = Some 1)"
proof -
  have f: "FOLDER_ID env_mixed = Some (asc ''F'')" by (simp add: env_mixed_def)
  have ne: "asc ''F'' \<noteq> []" by (simp add: asc_def)
  have c: "openai_client env_mixed \<noteq> None" by (simp add: env_mixed_def)
  have v: "\<not> is_cache_valid (CACHE st0) 0 (asc ''F'')"
    by (simp add: st0_def invalid_empty_cache)
  have d: "get_drive_service env_mixed = Inr ()"
    by (simp add: get_drive_service_def env_mixed_def)
  have ev: "process_files env_mixed [ex_file1, ex_file2]
              \<lparr>all_files_data = [], embedding_errors = []\<rparr>
       = \<lparr>all_files_data = [new_chunk ex_file1 (asc ''No disponible'') 1 0 (asc ''hola'')
                             [Finite 1, Finite 0]],
          embedding_errors = [asc ''b.pdf chunk 0: Error al generar embedding: boom'']\<rparr>"
    using ex_process_file1 by (simp add: ex_process_file2 ex_run0_def)
  have l: "[ex_file1, ex_file2] \<noteq> []" by simp
  from warmup_cache_result [OF f ne c v d ex_listing(1) refl, of 0, THEN conjunct2, THEN mp, OF l]
  have "\<exists>res. fst (warmup_cache env_mixed 0 0 st0) = Inr res
         \<and> w_success res \<and> w_total_chunks res = Some 1 \<and> w_total_documents res = Some 1
         \<and> w_embedding_errors res
             = Some [asc ''b.pdf chunk 0: Error al generar embedding: boom'']
         \<and> w_total_errors res = Some 1"
    unfolding ev by (auto simp add: asc_def)
  with f ne c v d ex_listing(1) l show ?thesis by (intro conjI)
qed

text \<open>
  Claim C3 as stated fails: the listing succeeds with one document, the embedding of
  its only chunk fails, and the result reports \<^verbatim>\<open>success = false\<close> and
  \<^verbatim>\<open>total_documents = 0\<close>.
\<close>

theorem warmup_cache_counterexample:
  "list_files_in_folder env_fail (asc ''F'') = Inr [ex_file2]
   \<and> fst (warmup_cache env_fail 0 0 st0)
       = Inr (run_result \<lparr>all_files_data = [],
                embedding_errors = [asc ''b.pdf chunk 0: Error al generar embedding: boom'']\<rparr>)
   \<and> w_success (run_result \<lparr>all_files_data = [],
                embedding_errors = [asc ''b.pdf chunk 0: Error al generar embedding: boom'']\<rparr>)
       = False
   \<and> w_total_documents (run_result \<lparr>all_files_data = [],
                embedding_errors = [asc ''b.pdf chunk 0: Error al generar embedding: boom'']\<rparr>)
       = Some 0
   \<and> w_total_errors (run_result \<lparr>all_files_data = [],
                embedding_errors = [asc ''b.pdf chunk 0: Error al generar embedding: boom'']\<rparr>)
       = Some 1"
proof -
  have f: "FOLDER_ID env_fail = Some (asc ''F'')" "openai_client env_fail \<noteq> None"
    "get_drive_service env_fail = Inr ()"
    by (simp_all add: env_fail_def env_mixed_def get_drive_service_def)
  have ne: "asc ''F'' \<noteq> []" by (simp add: asc_def)
  have v: "\<not> is_cache_valid (CACHE st0) 0 (asc ''F'')"
    by (simp add: st0_def invalid_empty_cache)
  have "fst (warmup_cache env_fail 0 0 st0)
       = Inr (run_result \<lparr>all_files_data = [],
                embedding_errors = [asc ''b.pdf chunk 0: Error al generar embedding: boom'']\<rparr>)"
    by (simp add: warmup_cache_def f ne v ex_listing ex_process_file2 Let_def)
  then show ?thesis by (simp add: ex_listing run_result_def unique_docs_def)
qed

end
